theory Spec2Isabelle
  imports Complex_Main
begin

section \<open>Serialised model data (gammapy/utils/serialization/io.py)\<close>

text \<open>
  The serialisation module turns model objects into plain dictionaries and back.
  A nested dictionary (what a model's \<open>to_dict\<close> returns) is a finite map from keys to
  values; a value is a Python string or something this module never looks into
  (numbers, parameter lists), kept opaque.  Equality of maps is extensional, as
  Python's \<open>==\<close> on dictionaries is.

  A top-level dictionary of a component carries only the keys \<open>name\<close>, \<open>id\<close>,
  \<open>filename\<close>, \<open>spatial\<close>, \<open>spectral\<close> and \<open>model\<close>; an absent key is \<open>None\<close>.
\<close>

datatype 'a pyval = PStr string | PObj 'a

type_synonym 'a pydict = "string \<Rightarrow> 'a pyval option"

record 'a component =
  k_name :: "string option"
  k_id :: "string option"
  k_filename :: "string option"
  k_spatial :: "'a pydict option"
  k_spectral :: "'a pydict option"
  k_model :: "'a pydict option"

record 'a components_dict =
  components :: "'a component list"

text \<open>
  The objects handed to \<open>models_to_dict\<close>.  The code reads them by attribute:
  \<open>__class__.__name__\<close>, and the optional attributes \<open>name\<close>, \<open>dataset_id\<close> and
  \<open>filename\<close> (\<open>None\<close> where the attribute is missing; for \<open>filename\<close> also where it is
  the Python value \<open>None\<close>).  An object whose class is named \<open>SkyModel\<close> is read through
  \<open>spatial_model\<close> and \<open>spectral_model\<close>, any other through its own \<open>to_dict\<close>.
\<close>

record 'a shape_model =
  sm_to_dict :: "string \<Rightarrow> 'a pydict"
  sm_filename :: "string option"

record 'a model_obj =
  class_name :: string
  name_attr :: "string option"
  dataset_id_attr :: "string option"
  filename_attr :: "string option"
  spatial_model :: "'a shape_model"
  spectral_model :: "'a shape_model"
  to_dict :: "string \<Rightarrow> 'a pydict"

text \<open>\<open>_model_to_dict(model, selection)\<close>.\<close>

definition model_to_dict :: "'a model_obj \<Rightarrow> string \<Rightarrow> 'a component" where
  "model_to_dict model selection =
     (let sky = (class_name model = ''SkyModel'') in
      \<lparr> k_name = Some (case name_attr model of Some n \<Rightarrow> n | None \<Rightarrow> class_name model),
        k_id = dataset_id_attr model,
        k_filename = filename_attr model,
        k_spatial =
          (if sky then
             Some (let d = sm_to_dict (spatial_model model) selection in
                   case sm_filename (spatial_model model) of
                     Some f \<Rightarrow> d(''filename'' \<mapsto> PStr f)
                   | None \<Rightarrow> d)
           else None),
        k_spectral = (if sky then Some (sm_to_dict (spectral_model model) selection) else None),
        k_model = (if sky then None else Some (to_dict model selection)) \<rparr>)"

text \<open>
  \<open>models_to_dict(models, selection)\<close>: the loop appends a serialised model only when
  no equal dictionary is in \<open>models_data\<close> yet.
\<close>

fun models_to_dict_loop ::
  "'a model_obj list \<Rightarrow> string \<Rightarrow> 'a component list \<Rightarrow> 'a component list" where
  "models_to_dict_loop [] selection models_data = models_data"
| "models_to_dict_loop (model # rest) selection models_data =
     (let model_data = model_to_dict model selection in
      models_to_dict_loop rest selection
        (if model_data \<notin> set models_data then models_data @ [model_data] else models_data))"

definition models_to_dict :: "'a model_obj list \<Rightarrow> string \<Rightarrow> 'a components_dict" where
  "models_to_dict models selection =
     \<lparr> components = models_to_dict_loop models selection [] \<rparr>"


subsection \<open>Errors\<close>

text \<open>
  Every exception the module can raise is a value.  Calls into classes that live
  outside this module (model classes, \<open>Parameters\<close>, \<open>SkyDiffuseCube\<close>, units) are
  parameters of the embedding and return \<open>error + value\<close>: they may raise anything.
\<close>

datatype error =
    KeyError string
  | TypeError
  | AttributeError
  | IndexError
  | NotImplementedError
  | ValueError string
  | OtherError string

primrec and_then :: "error + 'x \<Rightarrow> ('x \<Rightarrow> error + 'y) \<Rightarrow> error + 'y" where
  "and_then (Inl e) f = Inl e"
| "and_then (Inr x) f = f x"

definition getitem :: "'a pydict \<Rightarrow> string \<Rightarrow> error + 'a pyval" where
  "getitem d k = (case d k of None \<Rightarrow> Inl (KeyError k) | Some v \<Rightarrow> Inr v)"

definition require :: "string \<Rightarrow> 'x option \<Rightarrow> error + 'x" where
  "require k v = (case v of None \<Rightarrow> Inl (KeyError k) | Some x \<Rightarrow> Inr x)"

definition as_str :: "'a pyval \<Rightarrow> error + string" where
  "as_str v = (case v of PStr s \<Rightarrow> Inr s | PObj x \<Rightarrow> Inl TypeError)"

subsection \<open>\<open>dict_to_models\<close>\<close>

record ('sp, 'se) sky_model =
  sky_name :: string
  sky_spatial :: 'sp
  sky_spectral :: 'se

text \<open>
  What \<open>_dict_to_skymodel\<close> calls outside the module.  \<open>make_params\<close> is the dictionary
  comprehension over \<open>item["parameters"]\<close> (it multiplies values by units);
  \<open>spatial_read\<close> is \<open>getattr(spatial, type).read(filename)\<close> followed by the two
  attribute assignments; \<open>spatial_new\<close> and \<open>spectral_new\<close> are the constructor calls
  followed by \<open>Parameters.from_dict(item)\<close>; \<open>make_quantity\<close> is \<open>u.Quantity\<close> on a
  nested \<open>data\<close>/\<open>unit\<close> entry; \<open>spectral_table\<close> builds a spectral model from an energy
  and a values quantity.
\<close>

record ('a, 'q, 'sp, 'se) sky_calls =
  make_params :: "'a pyval \<Rightarrow> error + 'q"
  make_quantity :: "'a pyval \<Rightarrow> error + 'q"
  spatial_read :: "string \<Rightarrow> 'a pyval \<Rightarrow> 'a pydict \<Rightarrow> error + 'sp"
  spatial_new :: "string \<Rightarrow> 'q \<Rightarrow> 'a pydict \<Rightarrow> error + 'sp"
  spectral_table :: "string \<Rightarrow> 'q \<Rightarrow> 'q \<Rightarrow> 'a pydict \<Rightarrow> error + 'se"
  spectral_new :: "string \<Rightarrow> 'q \<Rightarrow> 'a pydict \<Rightarrow> error + 'se"

definition dict_to_spatial ::
  "('a, 'q, 'sp, 'se) sky_calls \<Rightarrow> 'a pydict \<Rightarrow> error + 'sp" where
  "dict_to_spatial ext item =
     (if item ''filename'' \<noteq> None then
        and_then (getitem item ''type'') (\<lambda>t.
        and_then (as_str t) (\<lambda>tn.
        and_then (getitem item ''filename'') (\<lambda>f.
        spatial_read ext tn f item)))
      else
        and_then (getitem item ''parameters'') (\<lambda>ps.
        and_then (make_params ext ps) (\<lambda>params.
        and_then (getitem item ''type'') (\<lambda>t.
        and_then (as_str t) (\<lambda>tn.
        spatial_new ext tn params item)))))"

definition dict_to_spectral ::
  "('a, 'q, 'sp, 'se) sky_calls \<Rightarrow> 'a pydict \<Rightarrow> error + 'se" where
  "dict_to_spectral ext item =
     (if item ''energy'' \<noteq> None then
        and_then (getitem item ''energy'') (\<lambda>en.
        and_then (make_quantity ext en) (\<lambda>energy.
        and_then (getitem item ''values'') (\<lambda>vs.
        and_then (make_quantity ext vs) (\<lambda>vals.
        and_then (getitem item ''type'') (\<lambda>t.
        and_then (as_str t) (\<lambda>tn.
        spectral_table ext tn energy vals item))))))
      else
        and_then (getitem item ''parameters'') (\<lambda>ps.
        and_then (make_params ext ps) (\<lambda>params.
        and_then (getitem item ''type'') (\<lambda>t.
        and_then (as_str t) (\<lambda>tn.
        spectral_new ext tn params item)))))"

text \<open>\<open>_dict_to_skymodel(model)\<close>.\<close>

definition dict_to_skymodel ::
  "('a, 'q, 'sp, 'se) sky_calls \<Rightarrow> 'a component \<Rightarrow> error + ('sp, 'se) sky_model" where
  "dict_to_skymodel ext model =
     and_then (require ''spatial'' (k_spatial model)) (\<lambda>item.
     and_then (dict_to_spatial ext item) (\<lambda>spatial_model.
     and_then (require ''spectral'' (k_spectral model)) (\<lambda>item2.
     and_then (dict_to_spectral ext item2) (\<lambda>spectral_model.
     and_then (require ''name'' (k_name model)) (\<lambda>n.
     Inr \<lparr> sky_name = n, sky_spatial = spatial_model, sky_spectral = spectral_model \<rparr>)))))"

text \<open>
  \<open>dict_to_models(data)\<close>: the loop over \<open>data["components"]\<close>.  A component with a
  \<open>model\<close> key is skipped when its type is \<open>BackgroundModel\<close> and stops the function with
  \<open>NotImplementedError\<close> otherwise; the others are built by \<open>_dict_to_skymodel\<close>.
\<close>

fun dict_to_models_loop ::
  "('a, 'q, 'sp, 'se) sky_calls \<Rightarrow> 'a component list \<Rightarrow> ('sp, 'se) sky_model list
     \<Rightarrow> error + ('sp, 'se) sky_model list" where
  "dict_to_models_loop ext [] models = Inr models"
| "dict_to_models_loop ext (model # rest) models =
     (case k_model model of
        Some m \<Rightarrow>
          and_then (getitem m ''type'') (\<lambda>t.
            if t = PStr ''BackgroundModel'' then dict_to_models_loop ext rest models
            else Inl NotImplementedError)
      | None \<Rightarrow>
          and_then (dict_to_skymodel ext model) (\<lambda>sky.
            dict_to_models_loop ext rest (models @ [sky])))"

definition dict_to_models ::
  "('a, 'q, 'sp, 'se) sky_calls \<Rightarrow> 'a components_dict \<Rightarrow> error + ('sp, 'se) sky_model list" where
  "dict_to_models ext data = dict_to_models_loop ext (components data) []"

subsection \<open>Python string and list helpers\<close>

text \<open>
  \<open>str.strip()\<close> removes leading and trailing whitespace, \<open>str.upper()\<close> maps the
  letters \<open>a\<close> to \<open>z\<close> to capitals.  Names are taken to be ASCII text: on other
  characters Python does more (it strips U+0085 and U+00A0 and capitalises non-ASCII
  letters), which these definitions do not follow.
  \<open>list.index\<close> returns the first position of an element and raises \<open>ValueError\<close>
  when there is none.
\<close>

definition is_space :: "char \<Rightarrow> bool" where
  "is_space c \<longleftrightarrow>
     (let n = (of_char c :: nat) in (9 \<le> n \<and> n \<le> 13) \<or> (28 \<le> n \<and> n \<le> 32))"

definition strip :: "string \<Rightarrow> string" where
  "strip s = rev (dropWhile is_space (rev (dropWhile is_space s)))"

definition upper_char :: "char \<Rightarrow> char" where
  "upper_char c =
     (let n = (of_char c :: nat) in if 97 \<le> n \<and> n \<le> 122 then char_of (n - 32) else c)"

definition upper :: "string \<Rightarrow> string" where
  "upper s = map upper_char s"

fun index :: "'x list \<Rightarrow> 'x \<Rightarrow> error + nat" where
  "index [] x = Inl (ValueError ''not in list'')"
| "index (y # ys) x = (if y = x then Inr 0 else and_then (index ys x) (\<lambda>i. Inr (Suc i)))"

definition nth_item :: "'x list \<Rightarrow> nat \<Rightarrow> error + 'x" where
  "nth_item xs i = (if i < length xs then Inr (xs ! i) else Inl IndexError)"

subsection \<open>The class \<open>models_to_datasets\<close>\<close>

text \<open>
  A background model object has a name, parameters and a dataset id that the class
  assigns, and a body it never looks into.  A dataset's \<open>background_model\<close> is either one
  \<open>BackgroundModel\<close> or a \<open>BackgroundModels\<close> collection, its \<open>model\<close> one \<open>SkyModel\<close> or
  a \<open>SkyModels\<close> collection.  Objects are modelled by value: which list entries are the
  same Python object is not tracked.
\<close>

record ('p, 'b) bkg =
  bkg_name :: string
  bkg_parameters :: 'p
  bkg_dataset_id :: "string option"
  bkg_body :: 'b

datatype 'x one_or_many = One 'x | Many "'x list"

record ('p, 'b, 'sp, 'se, 'irf) dataset =
  dataset_id :: string
  background_model :: "('p, 'b) bkg one_or_many"
  ds_model :: "('sp, 'se) sky_model one_or_many"
  ds_exposure :: 'irf
  ds_psf :: 'irf
  ds_edisp :: 'irf

text \<open>
  The calls that leave the module: \<open>SkyDiffuseCube.read(filename)\<close>,
  \<open>BackgroundModel.from_skymodel(cube, exposure, psf, edisp)\<close> and
  \<open>Parameters.from_dict(dict)\<close>.
\<close>

record ('a, 'p, 'b, 'irf, 'cube) bkg_calls =
  read_cube :: "string \<Rightarrow> error + 'cube"
  from_skymodel :: "'cube \<Rightarrow> 'irf \<Rightarrow> 'irf \<Rightarrow> 'irf \<Rightarrow> error + ('p, 'b) bkg"
  parameters_from_dict :: "'a pydict \<Rightarrow> error + 'p"

text \<open>
  The instance.  \<open>cube_reads\<close> is not a field of the class: it records every call of
  \<open>SkyDiffuseCube.read\<close>, in order, as the value of \<open>component.get("name")\<close> at the call
  and the file name passed.
\<close>

record ('p, 'b, 'sp, 'se, 'irf, 'cube) mtd_state =
  self_datasets :: "('p, 'b, 'sp, 'se, 'irf) dataset list"
  self_models :: "('sp, 'se) sky_model list"
  backgrounds_local :: "('p, 'b) bkg list"
  backgrounds_global :: "('p, 'b) bkg list"
  params_register :: "string \<Rightarrow> 'p option"
  cube_register :: "string \<Rightarrow> 'cube option"
  cube_reads :: "(string option \<times> string) list"

definition bkg_models :: "('p, 'b) bkg one_or_many \<Rightarrow> error + ('p, 'b) bkg list" where
  "bkg_models bm = (case bm of One b \<Rightarrow> Inl AttributeError | Many bs \<Rightarrow> Inr bs)"

text \<open>
  \<open>add_background(self, dataset, component, BKG_names)\<close>.  In the \<open>filename\<close> branch the
  \<open>try\<close> block looks \<open>component["name"]\<close> up in \<open>cube_register\<close>; a \<open>KeyError\<close> (from
  either subscript) leads to the \<open>except\<close> block, which reads the file and then stores
  the cube under \<open>component["name"]\<close>.
\<close>

definition add_background ::
  "('a, 'p, 'b, 'irf, 'cube) bkg_calls \<Rightarrow> ('p, 'b, 'sp, 'se, 'irf, 'cube) mtd_state
     \<Rightarrow> ('p, 'b, 'sp, 'se, 'irf) dataset \<Rightarrow> 'a component \<Rightarrow> string list
     \<Rightarrow> ('p, 'b, 'sp, 'se, 'irf, 'cube) mtd_state \<times> (error + ('p, 'b) bkg)" where
  "add_background ext self dataset component BKG_names =
     (let set_name = (\<lambda>bg_model.
            and_then (require ''name'' (k_name component)) (\<lambda>n.
            Inr (bg_model\<lparr> bkg_name := n \<rparr>)));
          build = (\<lambda>cube.
            and_then (from_skymodel ext cube (ds_exposure dataset) (ds_psf dataset)
                        (ds_edisp dataset)) set_name)
      in
      case k_filename component of
        Some filename \<Rightarrow>
          (case (case k_name component of None \<Rightarrow> None | Some n \<Rightarrow> cube_register self n) of
             Some cube \<Rightarrow> (self, build cube)
           | None \<Rightarrow>
               (let self1 = self\<lparr> cube_reads := cube_reads self @ [(k_name component, filename)] \<rparr>
                in case read_cube ext filename of
                     Inl e \<Rightarrow> (self1, Inl e)
                   | Inr cube \<Rightarrow>
                       (case k_name component of
                          None \<Rightarrow> (self1, Inl (KeyError ''name''))
                        | Some n \<Rightarrow>
                            (self1\<lparr> cube_register := (cube_register self1)(n \<mapsto> cube) \<rparr>,
                             build cube))))
      | None \<Rightarrow>
          (self,
           and_then (require ''name'' (k_name component)) (\<lambda>n.
           and_then (if upper (strip n) \<in> set BKG_names then index BKG_names (upper (strip n))
                     else if n \<in> set BKG_names then index BKG_names n
                     else Inl (ValueError ''Unknown Background'')) (\<lambda>BGind.
           and_then (bkg_models (background_model dataset)) (\<lambda>ms.
           and_then (nth_item ms BGind) set_name)))))"

text \<open>
  \<open>link_parameters(self, dataset, component, background_model)\<close>.  The method mutates
  the background model; the model returns the mutated object.
\<close>

definition link_parameters ::
  "('a, 'p, 'b, 'irf, 'cube) bkg_calls \<Rightarrow> ('p, 'b, 'sp, 'se, 'irf, 'cube) mtd_state
     \<Rightarrow> ('p, 'b, 'sp, 'se, 'irf) dataset \<Rightarrow> 'a component \<Rightarrow> ('p, 'b) bkg
     \<Rightarrow> ('p, 'b, 'sp, 'se, 'irf, 'cube) mtd_state \<times> (error + ('p, 'b) bkg)" where
  "link_parameters ext self dataset component bg_model =
     (case k_id component of
        None \<Rightarrow> (self, Inl (KeyError ''id''))
      | Some i \<Rightarrow>
          if i = ''global'' then
            (case (case (case k_name component of None \<Rightarrow> None
                         | Some n \<Rightarrow> params_register self n) of
                     Some params \<Rightarrow> Inr (self, params)
                   | None \<Rightarrow>
                       and_then (require ''model'' (k_model component)) (\<lambda>md.
                       and_then (parameters_from_dict ext md) (\<lambda>params.
                       and_then (require ''name'' (k_name component)) (\<lambda>n.
                       Inr (self\<lparr> params_register := (params_register self)(n \<mapsto> params) \<rparr>,
                            params))))) of
               Inl e \<Rightarrow> (self, Inl e)
             | Inr (self1, params) \<Rightarrow>
                 (let bm = bg_model\<lparr> bkg_parameters := params,
                                             bkg_dataset_id := Some ''global'' \<rparr>
                  in (self1\<lparr> backgrounds_global := backgrounds_global self1 @ [bm] \<rparr>, Inr bm)))
          else if i \<in> set [''local'', dataset_id dataset] then
            (case and_then (require ''model'' (k_model component)) (parameters_from_dict ext) of
               Inl e \<Rightarrow> (self, Inl e)
             | Inr params \<Rightarrow>
                 (let bm = bg_model\<lparr> bkg_parameters := params,
                                             bkg_dataset_id := Some (dataset_id dataset) \<rparr>
                  in (self\<lparr> backgrounds_local := backgrounds_local self @ [bm] \<rparr>, Inr bm)))
          else (self, Inr bg_model))"

text \<open>
  The loop of \<open>update_dataset\<close> over \<open>components["components"]\<close>, with the list
  \<open>backgrounds\<close> it builds.  The list holds values: when two components resolve to the
  same background model of the dataset, the code appends one object twice (with the
  attributes of the second assignment), the model two entries.
\<close>

fun update_dataset_loop ::
  "('a, 'p, 'b, 'irf, 'cube) bkg_calls \<Rightarrow> ('p, 'b, 'sp, 'se, 'irf, 'cube) mtd_state
     \<Rightarrow> ('p, 'b, 'sp, 'se, 'irf) dataset \<Rightarrow> string list \<Rightarrow> 'a component list
     \<Rightarrow> ('p, 'b) bkg list
     \<Rightarrow> ('p, 'b, 'sp, 'se, 'irf, 'cube) mtd_state \<times> (error + ('p, 'b) bkg list)" where
  "update_dataset_loop ext self dataset BKG_names [] backgrounds = (self, Inr backgrounds)"
| "update_dataset_loop ext self dataset BKG_names (component # rest) backgrounds =
     (case (case k_model component of
              None \<Rightarrow> Inr False
            | Some md \<Rightarrow>
                and_then (getitem md ''type'') (\<lambda>t.
                  if t = PStr ''BackgroundModel'' then
                    and_then (require ''id'' (k_id component)) (\<lambda>i.
                      Inr (i \<in> set [''global'', ''local'', dataset_id dataset]))
                  else Inr False)) of
        Inl e \<Rightarrow> (self, Inl e)
      | Inr False \<Rightarrow> update_dataset_loop ext self dataset BKG_names rest backgrounds
      | Inr True \<Rightarrow>
          (case add_background ext self dataset component BKG_names of
             (self1, Inl e) \<Rightarrow> (self1, Inl e)
           | (self1, Inr bg_model) \<Rightarrow>
               (case link_parameters ext self1 dataset component bg_model of
                  (self2, Inl e) \<Rightarrow> (self2, Inl e)
                | (self2, Inr bm) \<Rightarrow>
                    update_dataset_loop ext self2 dataset BKG_names rest (backgrounds @ [bm]))))"

text \<open>\<open>update_dataset(self, dataset, components)\<close>; it returns the dataset as mutated.\<close>

definition update_dataset ::
  "('a, 'p, 'b, 'irf, 'cube) bkg_calls \<Rightarrow> ('p, 'b, 'sp, 'se, 'irf, 'cube) mtd_state
     \<Rightarrow> ('p, 'b, 'sp, 'se, 'irf) dataset \<Rightarrow> 'a components_dict
     \<Rightarrow> ('p, 'b, 'sp, 'se, 'irf, 'cube) mtd_state \<times> (error + ('p, 'b, 'sp, 'se, 'irf) dataset)" where
  "update_dataset ext self dataset0 comps =
     (let dataset = (case background_model dataset0 of
                       One b \<Rightarrow> dataset0\<lparr> background_model := Many [b] \<rparr>
                     | Many bs \<Rightarrow> dataset0);
          BKG_names = (case background_model dataset of
                         One b \<Rightarrow> [] | Many bs \<Rightarrow> map bkg_name bs)
      in case update_dataset_loop ext self dataset BKG_names (components comps) [] of
           (self1, Inl e) \<Rightarrow> (self1, Inl e)
         | (self1, Inr backgrounds) \<Rightarrow>
             (self1, Inr (dataset\<lparr> background_model := Many backgrounds,
                                   ds_model := Many (self_models self1) \<rparr>)))"

text \<open>
  \<open>__init__(self, datasets, components)\<close>.  The datasets are updated in place, one after
  the other; \<open>done\<close> holds those already updated.  When a step raises, the construction
  stops there.
\<close>

fun init_loop ::
  "('a, 'p, 'b, 'irf, 'cube) bkg_calls \<Rightarrow> ('p, 'b, 'sp, 'se, 'irf, 'cube) mtd_state
     \<Rightarrow> 'a components_dict \<Rightarrow> ('p, 'b, 'sp, 'se, 'irf) dataset list
     \<Rightarrow> ('p, 'b, 'sp, 'se, 'irf) dataset list
     \<Rightarrow> ('p, 'b, 'sp, 'se, 'irf, 'cube) mtd_state \<times> (error + unit)" where
  "init_loop ext self comps done [] = (self\<lparr> self_datasets := done \<rparr>, Inr ())"
| "init_loop ext self comps done (dataset # rest) =
     (case update_dataset ext self dataset comps of
        (self1, Inl e) \<Rightarrow> (self1\<lparr> self_datasets := done @ dataset # rest \<rparr>, Inl e)
      | (self1, Inr dataset') \<Rightarrow> init_loop ext self1 comps (done @ [dataset']) rest)"

definition models_to_datasets ::
  "('a, 'q, 'sp, 'se) sky_calls \<Rightarrow> ('a, 'p, 'b, 'irf, 'cube) bkg_calls
     \<Rightarrow> ('p, 'b, 'sp, 'se, 'irf) dataset list \<Rightarrow> 'a components_dict
     \<Rightarrow> ('p, 'b, 'sp, 'se, 'irf, 'cube) mtd_state \<times> (error + unit)" where
  "models_to_datasets sext ext ds comps =
     (let self0 = \<lparr> self_datasets = ds, self_models = [], backgrounds_local = [],
                    backgrounds_global = [], params_register = (\<lambda>k. None),
                    cube_register = (\<lambda>k. None), cube_reads = [] \<rparr>
      in case dict_to_models sext comps of
           Inl e \<Rightarrow> (self0, Inl e)
         | Inr ms \<Rightarrow> init_loop ext (self0\<lparr> self_models := ms \<rparr>) comps [] ds)"

subsection \<open>Predicates used in the statements\<close>

text \<open>
  A component is a background entry when it has a \<open>model\<close> key whose \<open>type\<close> is the string
  \<open>BackgroundModel\<close>, and a model of another type when the \<open>type\<close> entry is anything
  else.
\<close>

definition is_background :: "'a component \<Rightarrow> bool" where
  "is_background c \<longleftrightarrow>
     (case k_model c of None \<Rightarrow> False | Some m \<Rightarrow> m ''type'' = Some (PStr ''BackgroundModel''))"

definition is_other_model :: "'a component \<Rightarrow> bool" where
  "is_other_model c \<longleftrightarrow>
     (case k_model c of None \<Rightarrow> False
      | Some m \<Rightarrow> (case m ''type'' of None \<Rightarrow> False | Some t \<Rightarrow> t \<noteq> PStr ''BackgroundModel''))"

text \<open>
  A component is a source when it has no \<open>model\<close> key and \<open>_dict_to_skymodel\<close> builds a
  sky model from it.
\<close>

definition is_source :: "('a, 'q, 'sp, 'se) sky_calls \<Rightarrow> 'a component \<Rightarrow> bool" where
  "is_source ext c \<longleftrightarrow>
     k_model c = None \<and> (case dict_to_skymodel ext c of Inl e \<Rightarrow> False | Inr sky \<Rightarrow> True)"

text \<open>
  The invariant of the cube cache: no component name was read twice, and every read
  that the construction survived was made under a name that is now in \<open>cube_register\<close>.
\<close>

definition reads_inv :: "('p, 'b, 'sp, 'se, 'irf, 'cube) mtd_state \<Rightarrow> bool" where
  "reads_inv self \<longleftrightarrow>
     distinct (map fst (cube_reads self))
     \<and> set (map fst (cube_reads self)) \<subseteq> Some ` dom (cube_register self)"

subsection \<open>Example inputs\<close>

text \<open>
  Two sky models and three components (a source, a diffuse background read from a
  file, a component of an unsupported type), collaborators that always succeed, and
  datasets with one background model each.
\<close>

definition ex_shape :: "string \<Rightarrow> unit shape_model" where
  "ex_shape t = \<lparr> sm_to_dict = (\<lambda>selection. [''type'' \<mapsto> PStr t, ''parameters'' \<mapsto> PObj ()]),
                 sm_filename = None \<rparr>"

definition ex_sky_obj :: "string \<Rightarrow> unit model_obj" where
  "ex_sky_obj n =
     \<lparr> class_name = ''SkyModel'', name_attr = Some n, dataset_id_attr = None,
       filename_attr = None, spatial_model = ex_shape ''SkyGaussian'',
       spectral_model = ex_shape ''PowerLaw'', to_dict = (\<lambda>selection. Map.empty) \<rparr>"

definition ex_source :: "unit component" where
  "ex_source =
     \<lparr> k_name = Some ''source'', k_id = None, k_filename = None,
       k_spatial = Some [''type'' \<mapsto> PStr ''SkyGaussian'', ''parameters'' \<mapsto> PObj ()],
       k_spectral = Some [''type'' \<mapsto> PStr ''PowerLaw'', ''parameters'' \<mapsto> PObj ()],
       k_model = None \<rparr>"

definition ex_diffuse :: "unit component" where
  "ex_diffuse =
     \<lparr> k_name = Some ''diffuse'', k_id = Some ''global'', k_filename = Some ''diffuse.fits'',
       k_spatial = None, k_spectral = None,
       k_model = Some [''type'' \<mapsto> PStr ''BackgroundModel''] \<rparr>"

definition ex_other :: "unit component" where
  "ex_other =
     \<lparr> k_name = Some ''other'', k_id = None, k_filename = None,
       k_spatial = None, k_spectral = None,
       k_model = Some [''type'' \<mapsto> PStr ''SkyDiffuseCube''] \<rparr>"

definition ex_sky_calls :: "(unit, unit, string, string) sky_calls" where
  "ex_sky_calls =
     \<lparr> make_params = (\<lambda>ps. Inr ()), make_quantity = (\<lambda>v. Inr ()),
       spatial_read = (\<lambda>t f item. Inr t), spatial_new = (\<lambda>t params item. Inr t),
       spectral_table = (\<lambda>t energy vals item. Inr t),
       spectral_new = (\<lambda>t params item. Inr t) \<rparr>"

definition ex_bkg :: "string \<Rightarrow> (string, string) bkg" where
  "ex_bkg body = \<lparr> bkg_name = ''BACKGROUND'', bkg_parameters = ''default'',
                   bkg_dataset_id = None, bkg_body = body \<rparr>"

definition ex_bkg_calls :: "(unit, string, string, unit, string) bkg_calls" where
  "ex_bkg_calls =
     \<lparr> read_cube = (\<lambda>filename. Inr filename),
       from_skymodel = (\<lambda>cube exposure psf edisp. Inr (ex_bkg cube)),
       parameters_from_dict = (\<lambda>d. Inr ''norm'') \<rparr>"

definition ex_dataset :: "string \<Rightarrow> (string, string, string, string, unit) dataset" where
  "ex_dataset i =
     \<lparr> dataset_id = i, background_model = One (ex_bkg ''irf''), ds_model = Many [],
       ds_exposure = (), ds_psf = (), ds_edisp = () \<rparr>"

definition ex_self ::
  "(string \<Rightarrow> string option) \<Rightarrow> (string, string, string, string, unit, string) mtd_state" where
  "ex_self reg =
     \<lparr> self_datasets = [], self_models = [], backgrounds_local = [], backgrounds_global = [],
       params_register = (\<lambda>k. None), cube_register = reg, cube_reads = [] \<rparr>"


section \<open>Map values and the test of an oversized kernel\<close>

text \<open>
  The maps that \<open>TSMapEstimator.run\<close> returns hold floating-point numbers, of which the
  tests (gammapy/estimators/tests/test_ts_map.py) tell NaN from the rest: a map value
  is NaN or a real number.  A map's \<open>data\<close> is indexed \<open>[energy, row, column]\<close>.
\<close>

datatype fval = NaN | Num real

type_synonym cube = "fval list list list"

text \<open>
  \<open>test_large_kernel\<close>: \<open>pytest.raises(ValueError)\<close> around the run with a kernel of
  4 degrees; it passes when the run ends in a \<open>ValueError\<close>.
\<close>

definition test_large_kernel :: "error + 'r \<Rightarrow> bool" where
  "test_large_kernel outcome =
     (case outcome of Inl (ValueError msg) \<Rightarrow> True | _ \<Rightarrow> False)"

section \<open>The TS map estimator, from its specification\<close>

text \<open>
  The estimator (the class \<open>TSMapEstimator\<close> with its per-pixel fit and its drivers) is
  not among the source files; only its tests are.  The definitions of this section
  follow the specification of the estimator, sections 4.1 to 4.5 and 7.  Numbers are
  reals, so rounding and overflow are outside the model, and a division by zero has
  HOL's value 0 (the symmetric error of a fit with vanishing curvature), where
  floating point gives infinity or NaN.  The kernel of an energy
  group and the cutout operation of the map collaborator are inputs.  The optional
  asymmetric errors and upper limits and the downsampled pass are not part of the
  model: it is the pass at the resolution of the dataset.
\<close>

type_synonym image = "real list list"

text \<open>
  Modelled from the spec: the configuration of the absent estimator, as far as the
  model uses it: the kernel width in pixels (\<open>kernel_width\<close> converted with the pixel
  scale), the required edge margin, the maximum number of Newton iterations, the
  convergence tolerances and the small positive floor of the amplitude.
\<close>

record ts_config =
  kernel_npix :: nat
  edge_margin :: nat
  max_niter :: nat
  fit_atol :: real
  fit_rtol :: real
  amplitude_floor :: real

subsection \<open>Pixel likelihood fitter (4.2)\<close>

text \<open>
  Modelled from the spec: the Poisson mean per sub-pixel of the absent fit routine,
  \<open>model = background + amplitude * kernel\<close> (step 1).
\<close>

definition model_counts :: "real list \<Rightarrow> real list \<Rightarrow> real \<Rightarrow> real list" where
  "model_counts background kern amplitude =
     map (\<lambda>(b, k). b + amplitude * k) (zip background kern)"

text \<open>
  Modelled from the spec: the Poisson log-likelihood of the absent fit routine, its
  first derivative (score) and its second derivative (curvature) with respect to the
  amplitude, each a sum of sub-pixel contributions of counts, model and kernel
  (step 2).
\<close>

definition log_likelihood :: "real list \<Rightarrow> real list \<Rightarrow> real list \<Rightarrow> real \<Rightarrow> real" where
  "log_likelihood counts background kern amplitude =
     sum_list (map (\<lambda>(c, m). c * ln m - m)
       (zip counts (model_counts background kern amplitude)))"

definition score :: "real list \<Rightarrow> real list \<Rightarrow> real list \<Rightarrow> real \<Rightarrow> real" where
  "score counts background kern amplitude =
     sum_list (map (\<lambda>(c, m, k). c * k / m - k)
       (zip counts (zip (model_counts background kern amplitude) kern)))"

definition curvature :: "real list \<Rightarrow> real list \<Rightarrow> real list \<Rightarrow> real \<Rightarrow> real" where
  "curvature counts background kern amplitude =
     sum_list (map (\<lambda>(c, m, k). - (c * k\<^sup>2 / m\<^sup>2))
       (zip counts (zip (model_counts background kern amplitude) kern)))"

text \<open>
  Modelled from the spec: the stopping test of the absent fit routine, "the
  relative/absolute change in amplitude falls below a convergence tolerance" (step 3).
\<close>

definition converged :: "ts_config \<Rightarrow> real \<Rightarrow> real \<Rightarrow> bool" where
  "converged cfg old new \<longleftrightarrow>
     \<bar>new - old\<bar> < fit_atol cfg \<or> \<bar>new - old\<bar> < fit_rtol cfg * \<bar>new\<bar>"

text \<open>
  Modelled from the spec: the Newton iteration of the absent fit routine (step 3).
  The update is \<open>amplitude - score / curvature\<close>; an update below zero is replaced by
  the small positive floor and the next round evaluates the likelihood terms there;
  the loop stops when the change is below the tolerance (success) or the maximum
  number of iterations is used up (no success).  The spec does not say what a
  vanishing curvature does: here the loop stops without success and the result counts
  as degenerate.  The result is the amplitude, the number of updates made, the
  success flag and the degenerate flag.
\<close>

fun newton ::
  "ts_config \<Rightarrow> real list \<Rightarrow> real list \<Rightarrow> real list \<Rightarrow> nat \<Rightarrow> nat \<Rightarrow> real
     \<Rightarrow> real \<times> nat \<times> bool \<times> bool" where
  "newton cfg counts background kern 0 n amplitude = (amplitude, n, False, False)"
| "newton cfg counts background kern (Suc left) n amplitude =
     (let c = curvature counts background kern amplitude in
      if c = 0 then (amplitude, n, False, True)
      else
        (let step = amplitude - score counts background kern amplitude / c;
             new = (if step < 0 then amplitude_floor cfg else step)
         in if converged cfg amplitude new then (new, Suc n, True, False)
            else newton cfg counts background kern left (Suc n) new))"

text \<open>
  Modelled from the spec: the \<open>PixelFitResult\<close> of the absent fit routine, without the
  optional asymmetric errors and upper limit.
\<close>

record pixel_fit_result =
  fit_ts :: real
  amplitude :: real
  amplitude_err :: real
  n_iter :: nat
  success_flag :: bool

text \<open>
  Modelled from the spec: \<open>fit_pixel\<close> of the absent fit routine (steps 3 to 5).
  \<open>TS = 2 * (log-likelihood at the best-fit amplitude - log-likelihood at amplitude 0)\<close>,
  and a negative or degenerate result is clamped to zero; the symmetric error is
  \<open>1 / sqrt(curvature)\<close> at the optimum, the curvature taken in magnitude (the
  information).
\<close>

definition fit_pixel ::
  "ts_config \<Rightarrow> real list \<Rightarrow> real list \<Rightarrow> real list \<Rightarrow> real \<Rightarrow> pixel_fit_result" where
  "fit_pixel cfg counts_cutout background_cutout kern initial_amplitude =
     (case newton cfg counts_cutout background_cutout kern (max_niter cfg) 0
             initial_amplitude of
        (a, n, ok, degenerate) \<Rightarrow>
          (let raw = 2 * (log_likelihood counts_cutout background_cutout kern a
                          - log_likelihood counts_cutout background_cutout kern 0)
           in \<lparr> fit_ts = (if degenerate \<or> raw < 0 then 0 else raw),
                amplitude = a,
                amplitude_err = 1 / sqrt \<bar>curvature counts_cutout background_cutout kern a\<bar>,
                n_iter = n,
                success_flag = ok \<rparr>))"

subsection \<open>Sliding-window driver (4.3)\<close>

text \<open>
  Modelled from the spec: what the absent driver reads of one energy group of the
  dataset: counts, background and exposure on one pixel grid (a list of rows), the
  boolean mask, and the kernel template of the group over its footprint.
\<close>

record energy_group =
  g_counts :: image
  g_background :: image
  g_exposure :: image
  g_mask :: "bool list list"
  g_kernel :: "real list"

definition at2 :: "'x list list \<Rightarrow> nat \<Rightarrow> nat \<Rightarrow> 'x option" where
  "at2 img y x = (if y < length img \<and> x < length (img ! y) then Some (img ! y ! x) else None)"

text \<open>
  Modelled from the spec: which pixels the absent driver fits.  A pixel is fitted when
  the mask holds there and its exposure is not zero ("pixels with zero exposure are
  treated as masked too", 4.2; "only masked/zero-exposure pixels get NaN", 7).
\<close>

definition pixel_valid :: "energy_group \<Rightarrow> nat \<Rightarrow> nat \<Rightarrow> bool" where
  "pixel_valid g y x \<longleftrightarrow>
     at2 (g_mask g) y x = Some True
     \<and> (case at2 (g_exposure g) y x of None \<Rightarrow> False | Some e \<Rightarrow> e \<noteq> 0)"

text \<open>
  Modelled from the spec: the values the absent driver stores for one pixel, NaN in
  every quantity for a pixel that is not fitted, the numbers of the fit otherwise.
\<close>

record pixel_out =
  p_ts :: fval
  p_flux :: fval
  p_flux_err :: fval
  p_niter :: fval

definition nan_pixel :: pixel_out where
  "nan_pixel = \<lparr> p_ts = NaN, p_flux = NaN, p_flux_err = NaN, p_niter = NaN \<rparr>"

definition fitted_pixel :: "pixel_fit_result \<Rightarrow> pixel_out" where
  "fitted_pixel r =
     \<lparr> p_ts = Num (fit_ts r), p_flux = Num (amplitude r), p_flux_err = Num (amplitude_err r),
       p_niter = Num (real (n_iter r)) \<rparr>"

text \<open>
  Modelled from the spec: the fit of one pixel by the absent driver.  It cuts counts
  and background out over the kernel's footprint centred on the pixel, weights the
  kernel with the exposure cutout, and calls the fitter with initial amplitude 0.
  \<open>cutout img y x n\<close> is the map collaborator's cutout by footprint.
\<close>

definition fit_at ::
  "ts_config \<Rightarrow> (image \<Rightarrow> nat \<Rightarrow> nat \<Rightarrow> nat \<Rightarrow> real list) \<Rightarrow> energy_group \<Rightarrow> nat \<Rightarrow> nat
     \<Rightarrow> pixel_fit_result" where
  "fit_at cfg cutout g y x =
     fit_pixel cfg
       (cutout (g_counts g) y x (kernel_npix cfg))
       (cutout (g_background g) y x (kernel_npix cfg))
       (map (\<lambda>(k, e). k * e) (zip (g_kernel g) (cutout (g_exposure g) y x (kernel_npix cfg))))
       0"

text \<open>
  Modelled from the spec: one pixel of the absent driver's pass.  The second component
  lists the positions at which the fitter was called: the pixel itself when it is
  fitted, nothing when it is not.
\<close>

definition pixel_pass ::
  "ts_config \<Rightarrow> (image \<Rightarrow> nat \<Rightarrow> nat \<Rightarrow> nat \<Rightarrow> real list) \<Rightarrow> energy_group \<Rightarrow> nat \<Rightarrow> nat
     \<Rightarrow> pixel_out \<times> (nat \<times> nat) list" where
  "pixel_pass cfg cutout g y x =
     (if pixel_valid g y x then (fitted_pixel (fit_at cfg cutout g y x), [(y, x)])
      else (nan_pixel, []))"

text \<open>
  Modelled from the spec: \<open>run_spatial_pass\<close> of the absent driver, over every pixel
  of the group's grid, row by row.
\<close>

definition run_spatial_pass ::
  "ts_config \<Rightarrow> (image \<Rightarrow> nat \<Rightarrow> nat \<Rightarrow> nat \<Rightarrow> real list) \<Rightarrow> energy_group
     \<Rightarrow> pixel_out list list \<times> (nat \<times> nat) list" where
  "run_spatial_pass cfg cutout g =
     (let rows = map (\<lambda>y. map (\<lambda>x. pixel_pass cfg cutout g y x)
                              [0..<length (g_counts g ! y)])
                     [0..<length (g_counts g)]
      in (map (map fst) rows, concat (map (\<lambda>row. concat (map snd row)) rows)))"

subsection \<open>Kernel check (4.1), energy groups (4.4) and result maps (4.5)\<close>

definition image_shape :: "image \<Rightarrow> nat \<times> nat" where
  "image_shape img = (length img, (case img of [] \<Rightarrow> 0 | row # rows \<Rightarrow> length row))"

text \<open>
  Modelled from the spec: the size check of the absent kernel builder.  The kernel
  fits when its width in pixels is not larger than the spatial extent of the map
  minus the required edge margin, along both axes.
\<close>

definition kernel_fits :: "ts_config \<Rightarrow> energy_group \<Rightarrow> bool" where
  "kernel_fits cfg g \<longleftrightarrow>
     (case image_shape (g_counts g) of
        (ny, nx) \<Rightarrow> int (kernel_npix cfg) \<le> int ny - int (edge_margin cfg)
                   \<and> int (kernel_npix cfg) \<le> int nx - int (edge_margin cfg))"

text \<open>
  Modelled from the spec: the result bundle of the absent estimator, one map per
  quantity, indexed by energy group, row and column.
\<close>

record ts_result =
  m_ts :: cube
  m_flux :: cube
  m_flux_err :: cube
  m_niter :: cube

text \<open>
  Modelled from the spec: the absent result assembler, one map slice per energy
  group for each quantity.
\<close>

definition assemble :: "pixel_out list list list \<Rightarrow> ts_result" where
  "assemble slices =
     \<lparr> m_ts = map (map (map p_ts)) slices,
       m_flux = map (map (map p_flux)) slices,
       m_flux_err = map (map (map p_flux_err)) slices,
       m_niter = map (map (map p_niter)) slices \<rparr>"

text \<open>
  Modelled from the spec: \<open>run\<close> of the absent estimator on the energy groups of a
  dataset.  A kernel that does not fit is a configuration error, raised before any
  fit; otherwise there is one spatial pass per group.  The second component lists the
  calls of the fitter as (group, row, column).
\<close>

definition run ::
  "ts_config \<Rightarrow> (image \<Rightarrow> nat \<Rightarrow> nat \<Rightarrow> nat \<Rightarrow> real list) \<Rightarrow> energy_group list
     \<Rightarrow> (error + ts_result) \<times> (nat \<times> nat \<times> nat) list" where
  "run cfg cutout groups =
     (if list_all (kernel_fits cfg) groups then
        (let passes = map (run_spatial_pass cfg cutout) groups
         in (Inr (assemble (map fst passes)),
             concat (map (\<lambda>(e, p). map (\<lambda>(y, x). (e, y, x)) (snd p))
                       (zip [0..<length passes] passes))))
      else (Inl (ValueError ''kernel larger than the map''), []))"

subsection \<open>Example dataset for the estimator\<close>

text \<open>
  A cutout that pads with zeros outside the image, a configuration with a kernel of
  one pixel, and a group of one row with three pixels: the first unmasked with
  exposure, the second unmasked without exposure, the third masked.
\<close>

definition ex_cutout :: "image \<Rightarrow> nat \<Rightarrow> nat \<Rightarrow> nat \<Rightarrow> real list" where
  "ex_cutout img y x n =
     concat (map (\<lambda>dy. map (\<lambda>dx.
        (let yy = int y + int dy - int (n div 2); xx = int x + int dx - int (n div 2)
         in if 0 \<le> yy \<and> 0 \<le> xx then
              (case at2 img (nat yy) (nat xx) of None \<Rightarrow> 0 | Some v \<Rightarrow> v)
            else 0)) [0..<n]) [0..<n])"

definition ex_config :: ts_config where
  "ex_config = \<lparr> kernel_npix = 1, edge_margin = 0, max_niter = Suc (Suc 0),
                 fit_atol = 1 / 2, fit_rtol = 0, amplitude_floor = 1 / 1000 \<rparr>"

definition ex_group :: energy_group where
  "ex_group = \<lparr> g_counts = [[2, 2, 3]], g_background = [[1, 1, 1]],
                g_exposure = [[1, 0, 1]], g_mask = [[True, True, False]],
                g_kernel = [1] \<rparr>"

section \<open>De-duplication in \<open>models_to_dict\<close>\<close>

lemma models_to_dict_loop_set:
  "set (models_to_dict_loop ms sel acc) = set acc \<union> (\<lambda>m. model_to_dict m sel) ` set ms"
  by (induction ms arbitrary: acc) (auto simp: Let_def)

lemma models_to_dict_loop_distinct:
  "distinct acc \<Longrightarrow> distinct (models_to_dict_loop ms sel acc)"
  by (induction ms arbitrary: acc) (auto simp: Let_def)

lemma count_list_distinct_mem:
  "distinct xs \<Longrightarrow> x \<in> set xs \<Longrightarrow> count_list xs x = 1"
  by (induction xs) (auto simp: count_list_0_iff)

text \<open>
  Claim C8.  Whatever list of models is passed, every serialised dictionary occurs in
  the returned \<open>components\<close> list exactly once, however often the model that produces
  it occurs in the input, and the list holds the dictionaries of the input models and
  nothing else.
\<close>

theorem models_to_dict_dedup:
  "(\<forall>m \<in> set ms.
      count_list (components (models_to_dict ms sel)) (model_to_dict m sel) = 1)
   \<and> set (components (models_to_dict ms sel)) = (\<lambda>m. model_to_dict m sel) ` set ms
   \<and> distinct (components (models_to_dict ms sel))"
proof -
  let ?out = "components (models_to_dict ms sel)"
  have d: "distinct ?out"
    by (simp add: models_to_dict_def models_to_dict_loop_distinct)
  have s: "set ?out = (\<lambda>m. model_to_dict m sel) ` set ms"
    by (simp add: models_to_dict_def models_to_dict_loop_set)
  have "count_list ?out (model_to_dict m sel) = 1" if "m \<in> set ms" for m
    using that d s by (intro count_list_distinct_mem) auto
  with d s show ?thesis by blast
qed

text \<open>
  The list \<open>a, b, a\<close> of sky models serialises to the two dictionaries of \<open>a\<close> and \<open>b\<close>,
  each once.
\<close>

theorem models_to_dict_dedup_witness:
  "count_list
     (components (models_to_dict [ex_sky_obj ''a'', ex_sky_obj ''b'', ex_sky_obj ''a''] ''all''))
     (model_to_dict (ex_sky_obj ''a'') ''all'') = 1
   \<and> count_list
     (components (models_to_dict [ex_sky_obj ''a'', ex_sky_obj ''b'', ex_sky_obj ''a''] ''all''))
     (model_to_dict (ex_sky_obj ''b'') ''all'') = 1
   \<and> components (models_to_dict [ex_sky_obj ''a'', ex_sky_obj ''b'', ex_sky_obj ''a''] ''all'')
       = [model_to_dict (ex_sky_obj ''a'') ''all'', model_to_dict (ex_sky_obj ''b'') ''all'']"
proof -
  have "components (models_to_dict [ex_sky_obj ''a'', ex_sky_obj ''b'', ex_sky_obj ''a''] ''all'')
       = [model_to_dict (ex_sky_obj ''a'') ''all'', model_to_dict (ex_sky_obj ''b'') ''all'']"
    by (simp add: models_to_dict_def model_to_dict_def ex_sky_obj_def)
  moreover have "ex_sky_obj ''a'' \<in> set [ex_sky_obj ''a'', ex_sky_obj ''b'', ex_sky_obj ''a'']"
    and "ex_sky_obj ''b'' \<in> set [ex_sky_obj ''a'', ex_sky_obj ''b'', ex_sky_obj ''a'']"
    by simp_all
  ultimately show ?thesis
    using models_to_dict_dedup
      [of "[ex_sky_obj ''a'', ex_sky_obj ''b'', ex_sky_obj ''a'']" "''all''"]
    by blast
qed

section \<open>Skipping and refusing in \<open>dict_to_models\<close>\<close>

lemma and_then_eq_Inr: "and_then m f = Inr y \<longleftrightarrow> (\<exists>x. m = Inr x \<and> f x = Inr y)"
  by (cases m) auto

lemma dict_to_models_loop_Inr:
  assumes "dict_to_models_loop ext cs acc = Inr ms"
  shows "(\<forall>c \<in> set cs. k_model c = None \<or> is_background c)
       \<and> (\<exists>new. ms = acc @ new
            \<and> list_all2 (\<lambda>c sky. dict_to_skymodel ext c = Inr sky)
                 (filter (\<lambda>c. k_model c = None) cs) new)"
  using assms
proof (induction cs arbitrary: acc)
  case Nil
  then show ?case by simp
next
  case (Cons c cs)
  show ?case
  proof (cases "k_model c")
    case None
    with Cons.prems obtain sky where sky: "dict_to_skymodel ext c = Inr sky"
      and rest: "dict_to_models_loop ext cs (acc @ [sky]) = Inr ms"
      by (auto simp: and_then_eq_Inr)
    from Cons.IH[OF rest] None sky show ?thesis by auto
  next
    case (Some m)
    with Cons.prems have bg: "m ''type'' = Some (PStr ''BackgroundModel'')"
      and rest: "dict_to_models_loop ext cs acc = Inr ms"
      by (auto simp: and_then_eq_Inr getitem_def split: option.splits if_splits)
    from Cons.IH[OF rest] Some bg show ?thesis by (auto simp: is_background_def)
  qed
qed

lemma dict_to_models_loop_append:
  "dict_to_models_loop ext (pre @ post) acc =
     and_then (dict_to_models_loop ext pre acc) (dict_to_models_loop ext post)"
proof (induction pre arbitrary: acc)
  case Nil
  show ?case by simp
next
  case (Cons c pre)
  show ?case
  proof (cases "k_model c")
    case None
    then show ?thesis by (cases "dict_to_skymodel ext c") (simp_all add: Cons.IH)
  next
    case (Some m)
    then show ?thesis by (cases "getitem m ''type''") (simp_all add: Cons.IH)
  qed
qed

lemma dict_to_models_loop_other:
  assumes "is_other_model c"
  shows "dict_to_models_loop ext (c # post) acc = Inl NotImplementedError"
  using assms by (auto simp: is_other_model_def getitem_def split: option.splits)

lemma dict_to_models_loop_background:
  assumes "is_background c"
  shows "dict_to_models_loop ext (c # post) acc = dict_to_models_loop ext post acc"
  using assms by (auto simp: is_background_def getitem_def split: option.splits)

lemma is_source_iff:
  "is_source ext c \<longleftrightarrow> k_model c = None \<and> (\<exists>sky. dict_to_skymodel ext c = Inr sky)"
  by (auto simp: is_source_def split: sum.splits)

lemma dict_to_models_loop_good:
  assumes "\<forall>c \<in> set cs. is_background c \<or> is_source ext c"
  shows "\<exists>new. dict_to_models_loop ext cs acc = Inr (acc @ new)
           \<and> list_all2 (\<lambda>c sky. dict_to_skymodel ext c = Inr sky)
                (filter (\<lambda>c. k_model c = None) cs) new"
  using assms
proof (induction cs arbitrary: acc)
  case Nil
  show ?case by simp
next
  case (Cons c cs)
  from Cons.prems have rest: "\<forall>c \<in> set cs. is_background c \<or> is_source ext c" by simp
  from Cons.prems have "is_background c \<or> is_source ext c" by simp
  then show ?case
  proof
    assume bg: "is_background c"
    then have m: "k_model c \<noteq> None" by (auto simp: is_background_def split: option.splits)
    from Cons.IH[OF rest, of acc] obtain new where
      "dict_to_models_loop ext cs acc = Inr (acc @ new)"
      "list_all2 (\<lambda>c sky. dict_to_skymodel ext c = Inr sky)
                (filter (\<lambda>c. k_model c = None) cs) new" by blast
    with m show ?thesis
      by (auto simp add: dict_to_models_loop_background[OF bg] simp del: dict_to_models_loop.simps)
  next
    assume "is_source ext c"
    then obtain sky where n: "k_model c = None" and sky: "dict_to_skymodel ext c = Inr sky"
      by (auto simp: is_source_iff)
    from Cons.IH[OF rest, of "acc @ [sky]"] obtain new where
      l: "dict_to_models_loop ext cs (acc @ [sky]) = Inr ((acc @ [sky]) @ new)"
      and a: "list_all2 (\<lambda>c sky. dict_to_skymodel ext c = Inr sky)
                (filter (\<lambda>c. k_model c = None) cs) new" by blast
    have "dict_to_models_loop ext (c # cs) acc = Inr (acc @ (sky # new))"
      using n sky l by simp
    moreover have "list_all2 (\<lambda>c sky. dict_to_skymodel ext c = Inr sky)
                (filter (\<lambda>c. k_model c = None) (c # cs)) (sky # new)"
      using n sky a by simp
    ultimately show ?thesis by blast
  qed
qed

lemma dict_to_models_loop_first_bad:
  assumes "\<forall>p \<in> set pre. is_background p \<or> is_source ext p"
  shows "\<exists>ms. dict_to_models_loop ext (pre @ c # post) [] = dict_to_models_loop ext (c # post) ms"
proof -
  from dict_to_models_loop_good[OF assms, of "[]"] obtain new where
    "dict_to_models_loop ext pre [] = Inr new" by auto
  then show ?thesis by (auto simp: dict_to_models_loop_append simp del: dict_to_models_loop.simps)
qed

text \<open>
  Claim C9.  When every component is a \<open>BackgroundModel\<close> entry or a source,
  \<open>dict_to_models\<close> returns a list, and the list holds, in order, exactly the sky
  models built from the components without a \<open>model\<close> key: one per such component
  and none for a background entry.  The first component that is neither decides the
  outcome: a \<open>model\<close> key of another type raises \<open>NotImplementedError\<close>, a source that
  cannot be built raises the error of the build, a \<open>model\<close> entry without a type raises
  \<open>KeyError\<close>.  Conversely, whenever a list is returned, every component with a
  \<open>model\<close> key was a \<open>BackgroundModel\<close> entry, and a \<open>BackgroundModel\<close> component can
  be dropped from the input without changing the result.
\<close>

theorem dict_to_models_skip_raise:
  "((\<forall>c \<in> set (components data). is_background c \<or> is_source ext c) \<longrightarrow>
      (\<exists>ms. dict_to_models ext data = Inr ms
         \<and> list_all2 (\<lambda>c sky. dict_to_skymodel ext c = Inr sky)
              (filter (\<lambda>c. k_model c = None) (components data)) ms))
   \<and> (components data = pre @ c # post
         \<and> (\<forall>p \<in> set pre. is_background p \<or> is_source ext p) \<and> is_other_model c \<longrightarrow>
       dict_to_models ext data = Inl NotImplementedError)
   \<and> (components data = pre @ c # post
         \<and> (\<forall>p \<in> set pre. is_background p \<or> is_source ext p)
         \<and> k_model c = None \<and> dict_to_skymodel ext c = Inl e \<longrightarrow>
       dict_to_models ext data = Inl e)
   \<and> (components data = pre @ c # post
         \<and> (\<forall>p \<in> set pre. is_background p \<or> is_source ext p)
         \<and> k_model c = Some m \<and> m ''type'' = None \<longrightarrow>
       dict_to_models ext data = Inl (KeyError ''type''))
   \<and> (dict_to_models ext data = Inr ms \<longrightarrow>
      (\<forall>c \<in> set (components data). k_model c = None \<or> is_background c)
      \<and> list_all2 (\<lambda>c sky. dict_to_skymodel ext c = Inr sky)
           (filter (\<lambda>c. k_model c = None) (components data)) ms)
   \<and> (components data = pre @ c # post
         \<and> dict_to_models ext \<lparr> components = pre \<rparr> = Inr ms' \<and> is_other_model c \<longrightarrow>
       dict_to_models ext data = Inl NotImplementedError)
   \<and> (components data = pre @ c # post \<and> is_background c \<longrightarrow>
       dict_to_models ext data = dict_to_models ext \<lparr> components = pre @ post \<rparr>)"
proof (intro conjI impI)
  assume "\<forall>c \<in> set (components data). is_background c \<or> is_source ext c"
  from dict_to_models_loop_good[OF this, of "[]"]
  show "\<exists>ms. dict_to_models ext data = Inr ms
         \<and> list_all2 (\<lambda>c sky. dict_to_skymodel ext c = Inr sky)
              (filter (\<lambda>c. k_model c = None) (components data)) ms"
    by (simp add: dict_to_models_def)
next
  assume h: "components data = pre @ c # post
         \<and> (\<forall>p \<in> set pre. is_background p \<or> is_source ext p) \<and> is_other_model c"
  then obtain ms where
    "dict_to_models_loop ext (pre @ c # post) [] = dict_to_models_loop ext (c # post) ms"
    using dict_to_models_loop_first_bad[of pre ext c post] by blast
  with h show "dict_to_models ext data = Inl NotImplementedError"
    by (simp add: dict_to_models_def dict_to_models_loop_other del: dict_to_models_loop.simps)
next
  assume h: "components data = pre @ c # post
         \<and> (\<forall>p \<in> set pre. is_background p \<or> is_source ext p)
         \<and> k_model c = None \<and> dict_to_skymodel ext c = Inl e"
  then obtain ms where
    "dict_to_models_loop ext (pre @ c # post) [] = dict_to_models_loop ext (c # post) ms"
    using dict_to_models_loop_first_bad[of pre ext c post] by blast
  with h show "dict_to_models ext data = Inl e"
    by (simp add: dict_to_models_def)
next
  assume h: "components data = pre @ c # post
         \<and> (\<forall>p \<in> set pre. is_background p \<or> is_source ext p)
         \<and> k_model c = Some m \<and> m ''type'' = None"
  then obtain ms where
    "dict_to_models_loop ext (pre @ c # post) [] = dict_to_models_loop ext (c # post) ms"
    using dict_to_models_loop_first_bad[of pre ext c post] by blast
  with h show "dict_to_models ext data = Inl (KeyError ''type'')"
    by (simp add: dict_to_models_def getitem_def)
next
  assume "dict_to_models ext data = Inr ms"
  then have l: "dict_to_models_loop ext (components data) [] = Inr ms"
    by (simp add: dict_to_models_def)
  from dict_to_models_loop_Inr[OF l]
  show "\<forall>c \<in> set (components data). k_model c = None \<or> is_background c"
    and "list_all2 (\<lambda>c sky. dict_to_skymodel ext c = Inr sky)
           (filter (\<lambda>c. k_model c = None) (components data)) ms"
    by auto
next
  assume "components data = pre @ c # post
         \<and> dict_to_models ext \<lparr> components = pre \<rparr> = Inr ms' \<and> is_other_model c"
  then show "dict_to_models ext data = Inl NotImplementedError"
    by (simp add: dict_to_models_def dict_to_models_loop_append dict_to_models_loop_other
          del: dict_to_models_loop.simps)
next
  assume "components data = pre @ c # post \<and> is_background c"
  then show "dict_to_models ext data = dict_to_models ext \<lparr> components = pre @ post \<rparr>"
    by (cases "dict_to_models_loop ext pre []")
       (simp_all add: dict_to_models_def dict_to_models_loop_append dict_to_models_loop_background
          del: dict_to_models_loop.simps)
qed

text \<open>
  A background entry followed by a source gives the one sky model of the source; with
  a component of an unsupported type appended, the same input raises.
\<close>

theorem dict_to_models_skip_raise_witness:
  "is_background ex_diffuse \<and> is_source ex_sky_calls ex_source \<and> is_other_model ex_other
   \<and> dict_to_models ex_sky_calls \<lparr> components = [ex_diffuse, ex_source] \<rparr>
       = Inr [\<lparr> sky_name = ''source'', sky_spatial = ''SkyGaussian'', sky_spectral = ''PowerLaw'' \<rparr>]
   \<and> dict_to_models ex_sky_calls \<lparr> components = [ex_diffuse, ex_source, ex_other] \<rparr>
       = Inl NotImplementedError
   \<and> dict_to_models ex_sky_calls \<lparr> components = [ex_diffuse, ex_source] \<rparr>
       = dict_to_models ex_sky_calls \<lparr> components = [ex_source] \<rparr>"
proof -
  let ?sky = "\<lparr> sky_name = ''source'', sky_spatial = ''SkyGaussian'', sky_spectral = ''PowerLaw'' \<rparr>"
  have b: "is_background ex_diffuse"
    by (simp add: is_background_def ex_diffuse_def)
  have sky: "dict_to_skymodel ex_sky_calls ex_source = Inr ?sky"
    by (simp add: ex_source_def dict_to_skymodel_def dict_to_spatial_def dict_to_spectral_def
        getitem_def require_def as_str_def ex_sky_calls_def)
  have n: "k_model ex_source = None"
    by (simp add: ex_source_def)
  have m: "k_model ex_diffuse \<noteq> None"
    by (simp add: ex_diffuse_def)
  from sky n have s: "is_source ex_sky_calls ex_source"
    by (simp add: is_source_def)
  have o: "is_other_model ex_other"
    by (simp add: is_other_model_def ex_other_def)
  from b s have good: "\<forall>c \<in> set [ex_diffuse, ex_source]. is_background c \<or> is_source ex_sky_calls c"
    by simp
  note all_good = dict_to_models_skip_raise
    [where data="\<lparr> components = [ex_diffuse, ex_source] \<rparr>" and ext=ex_sky_calls,
     THEN conjunct1, THEN mp]
  from all_good good
  obtain ms where r: "dict_to_models ex_sky_calls \<lparr> components = [ex_diffuse, ex_source] \<rparr> = Inr ms"
    and l: "list_all2 (\<lambda>c sky. dict_to_skymodel ex_sky_calls c = Inr sky)
              (filter (\<lambda>c. k_model c = None) [ex_diffuse, ex_source]) ms"
    by auto
  from l n m sky have "ms = [?sky]"
    by (auto simp: list_all2_Cons1)
  with r have 1: "dict_to_models ex_sky_calls \<lparr> components = [ex_diffuse, ex_source] \<rparr> = Inr [?sky]"
    by simp
  note other = dict_to_models_skip_raise
    [where data="\<lparr> components = [ex_diffuse, ex_source, ex_other] \<rparr>" and ext=ex_sky_calls
       and pre="[ex_diffuse, ex_source]" and c=ex_other and post="[]",
     THEN conjunct2, THEN conjunct1, THEN mp]
  from other good o
  have 2: "dict_to_models ex_sky_calls \<lparr> components = [ex_diffuse, ex_source, ex_other] \<rparr>
       = Inl NotImplementedError"
    by simp
  have 3: "dict_to_models ex_sky_calls \<lparr> components = [ex_diffuse, ex_source] \<rparr>
       = dict_to_models ex_sky_calls \<lparr> components = [ex_source] \<rparr>"
    using 1 sky n
    by (simp add: dict_to_models_def)
  from b s o 1 2 3 show ?thesis by blast
qed

section \<open>The cube cache of \<open>models_to_datasets\<close>\<close>

lemma add_background_cached:
  assumes "k_filename c = Some f" "k_name c = Some n" "cube_register self n = Some cube"
  shows "add_background ext self d c names =
     (self, and_then (from_skymodel ext cube (ds_exposure d) (ds_psf d) (ds_edisp d))
              (\<lambda>bm. Inr (bm\<lparr> bkg_name := n \<rparr>)))"
  using assms by (simp add: add_background_def require_def)

lemma add_background_first:
  assumes "k_filename c = Some f" "k_name c = Some n" "cube_register self n = None"
  shows "cube_reads (fst (add_background ext self d c names)) = cube_reads self @ [(Some n, f)]"
    and "read_cube ext f = Inr cube \<Longrightarrow>
         cube_register (fst (add_background ext self d c names)) = (cube_register self)(n \<mapsto> cube)"
  using assms by (auto simp: add_background_def require_def Let_def split: sum.splits)

lemma add_background_noname:
  assumes "k_filename c = Some f" "k_name c = None"
  shows "cube_reads (fst (add_background ext self d c names)) = cube_reads self @ [(None, f)]"
    and "\<exists>e. snd (add_background ext self d c names) = Inl e"
    and "cube_register (fst (add_background ext self d c names)) = cube_register self"
  using assms by (auto simp: add_background_def require_def Let_def split: sum.splits)

lemma add_background_nofile:
  assumes "k_filename c = None"
  shows "fst (add_background ext self d c names) = self"
  using assms by (simp add: add_background_def Let_def)

lemma add_background_reads:
  assumes inv: "reads_inv self" and ab: "add_background ext self d c names = (self', r)"
  shows "distinct (map fst (cube_reads self')) \<and> (\<forall>bm. r = Inr bm \<longrightarrow> reads_inv self')"
proof (cases "k_filename c")
  case None
  from add_background_nofile[OF None, where ext=ext and self=self and d=d and names=names] ab have "self' = self" by simp
  with inv show ?thesis by (simp add: reads_inv_def)
next
  case (Some f)
  show ?thesis
  proof (cases "k_name c")
    case None
    note nn = add_background_noname[OF Some None, where ext=ext and self=self and d=d and names=names]
    from inv have "None \<notin> set (map fst (cube_reads self))"
      by (auto simp: reads_inv_def)
    with nn ab inv show ?thesis by (auto simp: reads_inv_def)
  next
    case (Some n)
    note sn = this
    show ?thesis
    proof (cases "cube_register self n")
      case (Some cube)
      from add_background_cached[OF \<open>k_filename c = Some f\<close> sn Some, where ext=ext and d=d and names=names] ab
      have "self' = self" by simp
      with inv show ?thesis by (simp add: reads_inv_def)
    next
      case None
      note first = add_background_first[OF \<open>k_filename c = Some f\<close> sn None, where ext=ext and d=d and names=names]
      from inv None have fresh: "Some n \<notin> set (map fst (cube_reads self))"
        by (auto simp: reads_inv_def)
      have rd: "cube_reads self' = cube_reads self @ [(Some n, f)]"
        using first(1) ab by simp
      have d: "distinct (map fst (cube_reads self'))"
        using rd fresh inv by (simp add: reads_inv_def)
      have "reads_inv self'" if "r = Inr bm" for bm
      proof -
        from that ab have "\<exists>cube. read_cube ext f = Inr cube"
          using \<open>k_filename c = Some f\<close> sn None
          by (auto simp: add_background_def Let_def split: sum.splits)
        then obtain cube where "read_cube ext f = Inr cube" ..
        from first(2)[OF this] ab
        have "cube_register self' = (cube_register self)(n \<mapsto> cube)" by simp
        with rd d inv show ?thesis by (auto simp: reads_inv_def)
      qed
      with d show ?thesis by blast
    qed
  qed
qed

lemma link_parameters_reads:
  assumes "link_parameters ext self d c bm = (self', r)"
  shows "cube_reads self' = cube_reads self \<and> cube_register self' = cube_register self"
  using assms
  by (auto simp: link_parameters_def Let_def and_then_eq_Inr
      split: option.splits sum.splits if_splits prod.splits)

lemma link_parameters_inv:
  "reads_inv self \<Longrightarrow> link_parameters ext self d c bm = (self', r) \<Longrightarrow> reads_inv self'"
  using link_parameters_reads[of ext self d c bm self' r] by (simp add: reads_inv_def)

lemma update_dataset_loop_reads:
  assumes "reads_inv self" "update_dataset_loop ext self d names cs bs = (self', r)"
  shows "distinct (map fst (cube_reads self')) \<and> (\<forall>x. r = Inr x \<longrightarrow> reads_inv self')"
  using assms
proof (induction cs arbitrary: self bs)
  case Nil
  then show ?case by (auto simp: reads_inv_def)
next
  case (Cons c cs)
  let ?cond = "(case k_model c of
              None \<Rightarrow> Inr False
            | Some md \<Rightarrow>
                and_then (getitem md ''type'') (\<lambda>t.
                  if t = PStr ''BackgroundModel'' then
                    and_then (require ''id'' (k_id c)) (\<lambda>i.
                      Inr (i \<in> set [''global'', ''local'', dataset_id d]))
                  else Inr False))"
  show ?case
  proof (cases ?cond)
    case (Inl e)
    with Cons.prems show ?thesis by (auto simp: reads_inv_def)
  next
    case (Inr b)
    show ?thesis
    proof (cases b)
      case False
      with Inr Cons.prems Cons.IH[of self bs] show ?thesis by simp
    next
      case True
      obtain self1 r1 where ab: "add_background ext self d c names = (self1, r1)"
        by (cases "add_background ext self d c names")
      note abr = add_background_reads[OF Cons.prems(1) ab]
      show ?thesis
      proof (cases r1)
        case (Inl e)
        with Inr True ab Cons.prems(2) abr show ?thesis by auto
      next
        case (Inr bgm)
        note r1 = this
        obtain self2 r2 where lp: "link_parameters ext self1 d c bgm = (self2, r2)"
          by (cases "link_parameters ext self1 d c bgm")
        from abr r1 have inv1: "reads_inv self1" by simp
        note inv2 = link_parameters_inv[OF inv1 lp]
        show ?thesis
        proof (cases r2)
          case (Inl e)
          with \<open>?cond = Inr b\<close> True ab r1 lp Cons.prems(2) inv2 show ?thesis
            by (auto simp: reads_inv_def)
        next
          case (Inr bm)
          with \<open>?cond = Inr b\<close> True ab r1 lp Cons.prems(2)
          have "update_dataset_loop ext self2 d names cs (bs @ [bm]) = (self', r)" by simp
          from Cons.IH[OF inv2 this] show ?thesis .
        qed
      qed
    qed
  qed
qed

lemma update_dataset_reads:
  assumes "reads_inv self" "update_dataset ext self d comps = (self', r)"
  shows "distinct (map fst (cube_reads self')) \<and> (\<forall>x. r = Inr x \<longrightarrow> reads_inv self')"
proof -
  let ?d = "(case background_model d of
                       One b \<Rightarrow> d\<lparr> background_model := Many [b] \<rparr>
                     | Many bs \<Rightarrow> d)"
  let ?names = "(case background_model ?d of
                         One b \<Rightarrow> [] | Many bs \<Rightarrow> map bkg_name bs)"
  obtain s1 r1 where l: "update_dataset_loop ext self ?d ?names (components comps) [] = (s1, r1)"
    by (cases "update_dataset_loop ext self ?d ?names (components comps) []")
  from assms(2) l have "self' = s1" and "(\<exists>x. r = Inr x) \<longrightarrow> (\<exists>y. r1 = Inr y)"
    by (auto simp: update_dataset_def Let_def split: sum.splits)
  with update_dataset_loop_reads[OF assms(1) l] show ?thesis by auto
qed

lemma init_loop_reads:
  assumes "reads_inv self" "init_loop ext self comps done ds = (self', r)"
  shows "distinct (map fst (cube_reads self'))"
  using assms
proof (induction ds arbitrary: self "done")
  case Nil
  then show ?case by (auto simp: reads_inv_def)
next
  case (Cons d ds)
  obtain s1 r1 where u: "update_dataset ext self d comps = (s1, r1)"
    by (cases "update_dataset ext self d comps")
  note ur = update_dataset_reads[OF Cons.prems(1) u]
  show ?case
  proof (cases r1)
    case (Inl e)
    with u Cons.prems(2) ur show ?thesis by auto
  next
    case (Inr d')
    with ur have "reads_inv s1" by simp
    moreover from Inr u Cons.prems(2) have "init_loop ext s1 comps (done @ [d']) ds = (self', r)"
      by simp
    ultimately show ?thesis by (rule Cons.IH)
  qed
qed

lemma models_to_datasets_reads:
  "distinct (map fst (cube_reads (fst (models_to_datasets sext ext ds comps))))"
proof (cases "dict_to_models sext comps")
  case (Inl e)
  then show ?thesis by (simp add: models_to_datasets_def)
next
  case (Inr ms)
  let ?s = "\<lparr> self_datasets = ds, self_models = ms, backgrounds_local = [],
                    backgrounds_global = [], params_register = (\<lambda>k. None),
                    cube_register = (\<lambda>k. None), cube_reads = [] \<rparr>"
  have "reads_inv ?s" by (simp add: reads_inv_def)
  from init_loop_reads[OF this, where ext=ext and comps=comps and ds=ds and ?done="[]"] Inr
  show ?thesis by (simp add: models_to_datasets_def prod_eq_iff)
qed


text \<open>
  Claim C10.  Over a whole construction, whatever the datasets and components and
  whether or not it ends in an exception, no two calls of \<open>SkyDiffuseCube.read\<close> are
  made for the same component name.  In \<open>add_background\<close>, a component with a file name
  whose name is not in \<open>cube_register\<close> causes exactly one read, of its file, and the
  cube read is stored under its name; a component whose name is in \<open>cube_register\<close>
  causes no read and leaves the instance unchanged, and its background model is built
  from the stored cube.
\<close>

theorem cube_read_once:
  "distinct (map fst (cube_reads (fst (models_to_datasets sext ext ds comps))))
   \<and> (k_filename c = Some f \<and> k_name c = Some n \<and> cube_register self n = None \<longrightarrow>
        cube_reads (fst (add_background ext self d c names)) = cube_reads self @ [(Some n, f)]
        \<and> (\<forall>cube. read_cube ext f = Inr cube \<longrightarrow>
              cube_register (fst (add_background ext self d c names))
                = (cube_register self)(n \<mapsto> cube)))
   \<and> (k_filename c = Some f \<and> k_name c = Some n \<and> cube_register self n = Some cached \<longrightarrow>
        add_background ext self d c names =
          (self, and_then (from_skymodel ext cached (ds_exposure d) (ds_psf d) (ds_edisp d))
                   (\<lambda>bm. Inr (bm\<lparr> bkg_name := n \<rparr>))))"
  using models_to_datasets_reads [of sext ext ds comps]
    add_background_first [where c=c and f=f and n=n and self=self and ext=ext and d=d
      and names=names]
    add_background_cached [where c=c and f=f and n=n and self=self and cube=cached and ext=ext
      and d=d and names=names]
  by blast

text \<open>
  Two datasets sharing one global diffuse component: the whole construction reads
  \<open>diffuse.fits\<close> once.  The first \<open>add_background\<close> reads and stores the cube, the
  second finds it and reads nothing.
\<close>

theorem cube_read_once_witness:
  "cube_reads (fst (models_to_datasets ex_sky_calls ex_bkg_calls
       [ex_dataset ''a'', ex_dataset ''b''] \<lparr> components = [ex_source, ex_diffuse] \<rparr>))
     = [(Some ''diffuse'', ''diffuse.fits'')]
   \<and> distinct (map fst (cube_reads (fst (models_to_datasets ex_sky_calls ex_bkg_calls
       [ex_dataset ''a'', ex_dataset ''b''] \<lparr> components = [ex_source, ex_diffuse] \<rparr>))))
   \<and> k_filename ex_diffuse = Some ''diffuse.fits'' \<and> k_name ex_diffuse = Some ''diffuse''
   \<and> cube_register (ex_self Map.empty) ''diffuse'' = None
   \<and> cube_reads (fst (add_background ex_bkg_calls (ex_self Map.empty) (ex_dataset ''a'')
          ex_diffuse [''BACKGROUND''])) = [(Some ''diffuse'', ''diffuse.fits'')]
   \<and> cube_register (fst (add_background ex_bkg_calls (ex_self Map.empty) (ex_dataset ''a'')
          ex_diffuse [''BACKGROUND''])) = [''diffuse'' \<mapsto> ''diffuse.fits'']
   \<and> cube_register (ex_self [''diffuse'' \<mapsto> ''diffuse.fits'']) ''diffuse'' = Some ''diffuse.fits''
   \<and> add_background ex_bkg_calls (ex_self [''diffuse'' \<mapsto> ''diffuse.fits'']) (ex_dataset ''b'')
          ex_diffuse [''BACKGROUND'']
       = (ex_self [''diffuse'' \<mapsto> ''diffuse.fits''],
          Inr ((ex_bkg ''diffuse.fits'')\<lparr> bkg_name := ''diffuse'' \<rparr>))"
proof -
  let ?run = "models_to_datasets ex_sky_calls ex_bkg_calls
       [ex_dataset ''a'', ex_dataset ''b''] \<lparr> components = [ex_source, ex_diffuse] \<rparr>"
  have run: "cube_reads (fst ?run) = [(Some ''diffuse'', ''diffuse.fits'')]"
    by (simp add: models_to_datasets_def dict_to_models_def ex_diffuse_def ex_source_def
        dict_to_skymodel_def dict_to_spatial_def dict_to_spectral_def getitem_def require_def
        as_str_def ex_sky_calls_def update_dataset_def add_background_def link_parameters_def
        ex_dataset_def ex_bkg_calls_def ex_bkg_def Let_def)
  have h: "k_filename ex_diffuse = Some ''diffuse.fits''" "k_name ex_diffuse = Some ''diffuse''"
    "cube_register (ex_self Map.empty) ''diffuse'' = None"
    "cube_register (ex_self [''diffuse'' \<mapsto> ''diffuse.fits'']) ''diffuse'' = Some ''diffuse.fits''"
    "read_cube ex_bkg_calls ''diffuse.fits'' = Inr ''diffuse.fits''"
    by (simp_all add: ex_diffuse_def ex_self_def ex_bkg_calls_def)
  have e: "cube_reads (ex_self Map.empty) = []" "cube_register (ex_self Map.empty) = Map.empty"
    "from_skymodel ex_bkg_calls ''diffuse.fits'' () () () = Inr (ex_bkg ''diffuse.fits'')"
    by (simp_all add: ex_self_def ex_bkg_calls_def)
  note first = cube_read_once [where sext=ex_sky_calls and ext=ex_bkg_calls
      and ds="[ex_dataset ''a'', ex_dataset ''b'']"
      and comps="\<lparr> components = [ex_source, ex_diffuse] \<rparr>"
      and c=ex_diffuse and f="''diffuse.fits''" and n="''diffuse''"
      and self="ex_self Map.empty" and d="ex_dataset ''a''" and names="[''BACKGROUND'']"]
  note again = cube_read_once [where sext=ex_sky_calls and ext=ex_bkg_calls
      and ds="[ex_dataset ''a'', ex_dataset ''b'']"
      and comps="\<lparr> components = [ex_source, ex_diffuse] \<rparr>"
      and c=ex_diffuse and f="''diffuse.fits''" and n="''diffuse''"
      and self="ex_self [''diffuse'' \<mapsto> ''diffuse.fits'']" and d="ex_dataset ''b''"
      and names="[''BACKGROUND'']" and cached="''diffuse.fits''"]
  from first h e
  have 1: "distinct (map fst (cube_reads (fst ?run)))"
    and 2: "cube_reads (fst (add_background ex_bkg_calls (ex_self Map.empty) (ex_dataset ''a'')
          ex_diffuse [''BACKGROUND''])) = [(Some ''diffuse'', ''diffuse.fits'')]"
    and 3: "cube_register (fst (add_background ex_bkg_calls (ex_self Map.empty) (ex_dataset ''a'')
          ex_diffuse [''BACKGROUND''])) = [''diffuse'' \<mapsto> ''diffuse.fits'']"
    by simp_all
  from again h e
  have 4: "add_background ex_bkg_calls (ex_self [''diffuse'' \<mapsto> ''diffuse.fits''])
          (ex_dataset ''b'') ex_diffuse [''BACKGROUND'']
       = (ex_self [''diffuse'' \<mapsto> ''diffuse.fits''],
          Inr ((ex_bkg ''diffuse.fits'')\<lparr> bkg_name := ''diffuse'' \<rparr>))"
    by (simp add: ex_dataset_def)
  from run 1 2 3 4 h show ?thesis by blast
qed

section \<open>The estimator: convergence and signs of a pixel fit\<close>

lemma newton_success_nonneg:
  assumes "0 \<le> amplitude_floor cfg"
    and "newton cfg c b k left n a = (a', n', True, d)"
  shows "0 \<le> a'"
  using assms(2)
proof (induction left arbitrary: n a)
  case 0
  then show ?case by simp
next
  case (Suc left)
  let ?c = "curvature c b k a"
  let ?step = "a - score c b k a / ?c"
  let ?new = "if ?step < 0 then amplitude_floor cfg else ?step"
  from Suc.prems have nz: "?c \<noteq> 0" by (auto simp: Let_def split: if_splits)
  have new: "0 \<le> ?new" using assms(1) by simp
  show ?case
  proof (cases "converged cfg a ?new")
    case True
    with Suc.prems nz have "a' = ?new" by (simp add: Let_def)
    with new show ?thesis by simp
  next
    case False
    with Suc.prems nz have "newton cfg c b k left (Suc n) ?new = (a', n', True, d)"
      by (simp add: Let_def)
    then show ?thesis by (rule Suc.IH)
  qed
qed

lemma fit_pixel_ts_nonneg: "0 \<le> fit_ts (fit_pixel cfg c b k a0)"
  by (simp add: fit_pixel_def Let_def split: prod.splits)

text \<open>
  Claim C4.  Whatever the cutouts, the kernel and the initial amplitude, when the fit
  of a pixel converges (the success flag is set), the reported TS is not negative and
  the reported amplitude, the flux, is not negative.  The TS is not negative even
  without convergence: a negative or degenerate likelihood ratio is reported as zero.
  The amplitude is not negative because a converged fit has made at least one update,
  and an update below zero is replaced by the floor, which is positive.
\<close>

theorem fit_converged_nonneg:
  "0 < amplitude_floor cfg \<and> success_flag (fit_pixel cfg c b k a0) \<longrightarrow>
     0 \<le> fit_ts (fit_pixel cfg c b k a0) \<and> 0 \<le> amplitude (fit_pixel cfg c b k a0)"
proof
  assume h: "0 < amplitude_floor cfg \<and> success_flag (fit_pixel cfg c b k a0)"
  obtain a n ok d where nw: "newton cfg c b k (max_niter cfg) 0 a0 = (a, n, ok, d)"
    by (cases "newton cfg c b k (max_niter cfg) 0 a0") auto
  with h have "ok" and amp: "amplitude (fit_pixel cfg c b k a0) = a"
    by (simp_all add: fit_pixel_def Let_def)
  with nw h have "0 \<le> a"
    using newton_success_nonneg [of cfg c b k "max_niter cfg" 0 a0 a n d] by simp
  with amp fit_pixel_ts_nonneg [of cfg c b k a0]
  show "0 \<le> fit_ts (fit_pixel cfg c b k a0) \<and> 0 \<le> amplitude (fit_pixel cfg c b k a0)"
    by simp
qed

lemma ex_terms:
  "curvature [2] [1] [1] 0 = - 2" "score [2] [1] [1] 0 = 1"
  "curvature [2] [1] [1] (1 / 2) = - (8 / 9)" "score [2] [1] [1] (1 / 2) = 1 / 3"
  by (simp_all add: curvature_def score_def model_counts_def power2_eq_square)

lemma ex_converged:
  "\<not> converged ex_config 0 (1 / 2)" "converged ex_config (1 / 2) (7 / 8)"
  by (simp_all add: converged_def ex_config_def)

lemma ex_newton: "newton ex_config [2] [1] [1] (Suc (Suc 0)) 0 0 = (7 / 8, 2, True, False)"
proof -
  have "newton ex_config [2] [1] [1] (Suc 0) (Suc 0) (1 / 2) = (7 / 8, 2, True, False)"
    using ex_converged(2) by (simp add: ex_terms Let_def)
  then show ?thesis
    using ex_converged(1) by (simp add: ex_terms Let_def)
qed

text \<open>
  One sub-pixel with 2 counts over a background of 1: the fit converges after two
  updates at amplitude 7/8.
\<close>

theorem fit_converged_nonneg_witness:
  "0 < amplitude_floor ex_config \<and> success_flag (fit_pixel ex_config [2] [1] [1] 0)
   \<and> amplitude (fit_pixel ex_config [2] [1] [1] 0) = 7 / 8
   \<and> n_iter (fit_pixel ex_config [2] [1] [1] 0) = 2
   \<and> 0 \<le> fit_ts (fit_pixel ex_config [2] [1] [1] 0)
   \<and> 0 \<le> amplitude (fit_pixel ex_config [2] [1] [1] 0)"
proof -
  have m: "max_niter ex_config = Suc (Suc 0)" "0 < amplitude_floor ex_config"
    by (simp_all add: ex_config_def)
  have s: "success_flag (fit_pixel ex_config [2] [1] [1] 0)"
    "amplitude (fit_pixel ex_config [2] [1] [1] 0) = 7 / 8"
    "n_iter (fit_pixel ex_config [2] [1] [1] 0) = 2"
    by (simp_all add: fit_pixel_def m ex_newton Let_def del: newton.simps)
  with m fit_converged_nonneg [of ex_config "[2]" "[1]" "[1]" 0] show ?thesis by blast
qed


section \<open>The estimator: the kernel check\<close>

lemma run_ok:
  assumes "list_all (kernel_fits cfg) groups"
  shows "fst (run cfg cutout groups)
           = Inr (assemble (map (\<lambda>g. fst (run_spatial_pass cfg cutout g)) groups))"
  using assms by (simp add: run_def Let_def comp_def)

lemma run_fails:
  assumes "\<not> list_all (kernel_fits cfg) groups"
  shows "run cfg cutout groups = (Inl (ValueError ''kernel larger than the map''), [])"
  using assms by (simp add: run_def)

text \<open>
  Claim C2.  Whatever the dataset and the configuration, when the kernel's width in
  pixels is larger than the extent of some group's map minus the edge margin, along
  either axis, the run ends in a \<open>ValueError\<close>, the fitter has not been called once,
  and the outcome is the one \<open>test_large_kernel\<close> expects of the run with a kernel of
  4 degrees.
\<close>

theorem oversized_kernel_raises:
  "(\<exists>g \<in> set groups.
      int (kernel_npix cfg) > int (fst (image_shape (g_counts g))) - int (edge_margin cfg)
      \<or> int (kernel_npix cfg) > int (snd (image_shape (g_counts g))) - int (edge_margin cfg))
   \<longrightarrow> run cfg cutout groups = (Inl (ValueError ''kernel larger than the map''), [])
       \<and> snd (run cfg cutout groups) = []
       \<and> test_large_kernel (fst (run cfg cutout groups))"
proof
  assume "\<exists>g \<in> set groups.
      int (kernel_npix cfg) > int (fst (image_shape (g_counts g))) - int (edge_margin cfg)
      \<or> int (kernel_npix cfg) > int (snd (image_shape (g_counts g))) - int (edge_margin cfg)"
  then obtain g where g: "g \<in> set groups"
    and big: "int (kernel_npix cfg) > int (fst (image_shape (g_counts g))) - int (edge_margin cfg)
      \<or> int (kernel_npix cfg) > int (snd (image_shape (g_counts g))) - int (edge_margin cfg)"
    by blast
  from big have "\<not> kernel_fits cfg g"
    by (auto simp: kernel_fits_def split_beta)
  with g have "\<not> list_all (kernel_fits cfg) groups"
    by (auto simp: list_all_iff)
  from run_fails[OF this]
  show "run cfg cutout groups = (Inl (ValueError ''kernel larger than the map''), [])
       \<and> snd (run cfg cutout groups) = []
       \<and> test_large_kernel (fst (run cfg cutout groups))"
    by (simp add: test_large_kernel_def)
qed

text \<open>
  A kernel of four pixels on the example group, whose map has one row.
\<close>

theorem oversized_kernel_raises_witness:
  "int (kernel_npix (ex_config\<lparr> kernel_npix := 4 \<rparr>))
     > int (fst (image_shape (g_counts ex_group)))
       - int (edge_margin (ex_config\<lparr> kernel_npix := 4 \<rparr>))
   \<and> run (ex_config\<lparr> kernel_npix := 4 \<rparr>) ex_cutout [ex_group]
       = (Inl (ValueError ''kernel larger than the map''), [])
   \<and> test_large_kernel (fst (run (ex_config\<lparr> kernel_npix := 4 \<rparr>) ex_cutout [ex_group]))"
proof -
  have h: "int (kernel_npix (ex_config\<lparr> kernel_npix := 4 \<rparr>))
     > int (fst (image_shape (g_counts ex_group)))
       - int (edge_margin (ex_config\<lparr> kernel_npix := 4 \<rparr>))"
    by (simp add: ex_config_def ex_group_def image_shape_def)
  then have "\<exists>g \<in> set [ex_group].
      int (kernel_npix (ex_config\<lparr> kernel_npix := 4 \<rparr>))
        > int (fst (image_shape (g_counts g))) - int (edge_margin (ex_config\<lparr> kernel_npix := 4 \<rparr>))
      \<or> int (kernel_npix (ex_config\<lparr> kernel_npix := 4 \<rparr>))
        > int (snd (image_shape (g_counts g))) - int (edge_margin (ex_config\<lparr> kernel_npix := 4 \<rparr>))"
    by simp
  with oversized_kernel_raises [of "[ex_group]" "ex_config\<lparr> kernel_npix := 4 \<rparr>" ex_cutout] h
  show ?thesis by blast
qed

end
